theory Spec2Isabelle
  imports Main "HOL-Library.Sublist"
begin

section \<open>Text primitives used by the event parser\<close>

text \<open>
  Lines are Python \<open>str\<close> values. They are modelled as \<open>string\<close>, one \<open>char\<close> per
  code point, for code points below 256. In that range \<open>\d\<close> matches the ten ASCII
  digits only, and \<open>str.isspace\<close> holds for the code points listed in \<open>is_space\<close>.
\<close>

abbreviation dq :: char where "dq \<equiv> CHR 0x22"
abbreviation nl :: char where "nl \<equiv> CHR 0x0A"
abbreviation slash :: char where "slash \<equiv> CHR 0x2F"

text \<open>Python's \<open>sub in s\<close> on strings: \<open>sub\<close> occurs as a contiguous slice of \<open>s\<close>.\<close>

fun str_in :: "string \<Rightarrow> string \<Rightarrow> bool" where
  "str_in sub [] = (sub = [])"
| "str_in sub (c # cs) = (prefix sub (c # cs) \<or> str_in sub cs)"

definition is_digit :: "char \<Rightarrow> bool" where
  "is_digit c = (let n = (of_char c :: nat) in 48 \<le> n \<and> n \<le> 57)"

definition is_space :: "char \<Rightarrow> bool" where
  "is_space c = (let n = (of_char c :: nat) in
     (9 \<le> n \<and> n \<le> 13) \<or> (28 \<le> n \<and> n \<le> 32) \<or> n = 133 \<or> n = 160)"

text \<open>
  \<open>re.search('uint32 (\d+)', s)\<close>: the leftmost position where the literal
  \<open>uint32\<close> and one blank are followed by at least one digit; group 1 is the
  longest run of digits there. \<open>None\<close> is "no match".
\<close>

fun re_uint32 :: "string \<Rightarrow> string option" where
  "re_uint32 [] = None"
| "re_uint32 (c # cs) =
     (if prefix ''uint32 '' (c # cs) \<and> takeWhile is_digit (drop 7 (c # cs)) \<noteq> []
      then Some (takeWhile is_digit (drop 7 (c # cs)))
      else re_uint32 cs)"

text \<open>\<open>int(s)\<close> on a non-empty string of ASCII digits.\<close>

definition digit_val :: "char \<Rightarrow> int" where
  "digit_val c = int (of_char c) - 48"

definition int_of_digits :: "string \<Rightarrow> int" where
  "int_of_digits ds = foldl (\<lambda>acc c. 10 * acc + digit_val c) 0 ds"

text \<open>
  \<open>re.search(pre + '(.*)"', s)\<close> for a literal \<open>pre\<close>: at the leftmost occurrence of
  \<open>pre\<close> that is followed, before the next newline, by a double quote, group 1 is
  everything between \<open>pre\<close> and the last such quote (the star is greedy and the dot
  does not match a newline).
\<close>

definition upto_last_dq :: "string \<Rightarrow> string" where
  "upto_last_dq seg = rev (tl (dropWhile (\<lambda>c. c \<noteq> dq) (rev seg)))"

fun re_body :: "string \<Rightarrow> string \<Rightarrow> string option" where
  "re_body pre [] = None"
| "re_body pre (c # cs) =
     (if prefix pre (c # cs) \<and>
         dq \<in> set (takeWhile (\<lambda>x. x \<noteq> nl) (drop (length pre) (c # cs)))
      then Some (upto_last_dq (takeWhile (\<lambda>x. x \<noteq> nl) (drop (length pre) (c # cs))))
      else re_body pre cs)"

text \<open>\<open>str.strip()\<close>: leading and trailing white space removed.\<close>

definition strip :: "string \<Rightarrow> string" where
  "strip s = rev (dropWhile is_space (rev (dropWhile is_space s)))"

text \<open>
  \<open>os.path.dirname\<close> of \<open>posixpath\<close>: the part up to and including the last slash,
  with trailing slashes removed unless it consists of slashes only.
\<close>

definition dirname :: "string \<Rightarrow> string" where
  "dirname p =
     (let head = rev (dropWhile (\<lambda>c. c \<noteq> slash) (rev p))
      in if head \<noteq> [] \<and> \<not> (\<forall>c \<in> set head. c = slash)
         then rev (dropWhile (\<lambda>c. c = slash) (rev head))
         else head)"

section \<open>The event parser\<close>

datatype exn = IndexError | AttributeError | ValueError | SystemExit | KeyboardInterrupt

text \<open>The dictionary \<open>app_call\<close> built by \<open>extract_app_event\<close>; \<open>None\<close> is Python's \<open>None\<close>.\<close>

record app_call =
  application :: "string option"
  app_uint :: "int option"
  file_path :: "string option"
  file_uint :: "int option"

definition empty_call :: app_call where
  "empty_call = \<lparr>application = None, app_uint = None, file_path = None, file_uint = None\<rparr>"

text \<open>
  \<open>lines[lines.index(data_line) + 1]\<close>: \<open>index\<close> is the position of the first element
  equal to \<open>data_line\<close> (\<open>ValueError\<close> when there is none), and the subscript raises
  \<open>IndexError\<close> past the end of the list.
\<close>

definition list_index :: "string list \<Rightarrow> string \<Rightarrow> nat" where
  "list_index lines data_line = length (takeWhile (\<lambda>l. l \<noteq> data_line) lines)"

definition next_line :: "string list \<Rightarrow> string \<Rightarrow> exn + string" where
  "next_line lines data_line =
     (let i = list_index lines data_line
      in if length lines \<le> i then Inl ValueError
         else if i + 1 < length lines then Inr (lines ! (i + 1))
         else Inl IndexError)"

text \<open>The body of the \<open>for data_line in lines\<close> loop; \<open>continue\<close> returns the dictionary unchanged.\<close>

definition extract_line :: "string \<Rightarrow> string list \<Rightarrow> string \<Rightarrow> app_call \<Rightarrow> exn + app_call" where
  "extract_line name lines data_line ac =
     (if str_in (''string '' @ [dq] @ name @ [dq]) data_line then
        (let ac1 = ac\<lparr>application := Some name\<rparr>
         in case next_line lines data_line of
              Inl e \<Rightarrow> Inl e
            | Inr nxt \<Rightarrow>
                (case re_uint32 nxt of
                   Some d \<Rightarrow> Inr (ac1\<lparr>app_uint := Some (int_of_digits d)\<rparr>)
                 | None \<Rightarrow> Inr ac1))
      else if str_in ''string'' data_line then
        (case re_body ''file://'' data_line of
           None \<Rightarrow>
             (case re_body ''trash:/'' data_line of
                None \<Rightarrow> Inr ac
              | Some g \<Rightarrow>
                  if strip g = [] then Inr ac
                  else
                    (let ac1 = ac\<lparr>file_path := Some (''trash://'' @ strip g)\<rparr>
                     in case next_line lines data_line of
                          Inl e \<Rightarrow> Inl e
                        | Inr nxt \<Rightarrow>
                            (case re_uint32 nxt of
                               None \<Rightarrow> Inl AttributeError
                             | Some d \<Rightarrow> Inr (ac1\<lparr>file_uint := Some (int_of_digits d)\<rparr>))))
         | Some g \<Rightarrow>
             (let ac1 = ac\<lparr>file_path := Some (strip g)\<rparr>
              in case next_line lines data_line of
                   Inl e \<Rightarrow> Inl e
                 | Inr nxt \<Rightarrow>
                     (case re_uint32 nxt of
                        Some d \<Rightarrow> Inr (ac1\<lparr>file_uint := Some (int_of_digits d)\<rparr>)
                      | None \<Rightarrow> Inr ac1)))
      else Inr ac)"

fun extract_loop :: "string \<Rightarrow> string list \<Rightarrow> string list \<Rightarrow> app_call \<Rightarrow> exn + app_call" where
  "extract_loop name lines [] ac = Inr ac"
| "extract_loop name lines (data_line # rest) ac =
     (case extract_line name lines data_line ac of
        Inl e \<Rightarrow> Inl e
      | Inr ac' \<Rightarrow> extract_loop name lines rest ac')"

text \<open>
  The step after the loop: a path that \<open>os.path.isdir\<close> does not report as a
  directory is replaced by its \<open>dirname\<close>. The file system is the parameter \<open>isdir\<close>.
\<close>

definition normalize_path :: "(string \<Rightarrow> bool) \<Rightarrow> app_call \<Rightarrow> app_call" where
  "normalize_path isdir ac =
     (case file_path ac of
        None \<Rightarrow> ac
      | Some p \<Rightarrow> if \<not> isdir p then ac\<lparr>file_path := Some (dirname p)\<rparr> else ac)"

definition extract_app_event :: "(string \<Rightarrow> bool) \<Rightarrow> string \<Rightarrow> string list \<Rightarrow> exn + app_call" where
  "extract_app_event isdir name lines =
     (case extract_loop name lines lines empty_call of
        Inl e \<Rightarrow> Inl e
      | Inr ac \<Rightarrow> Inr (normalize_path isdir ac))"

section \<open>The monitor object and the world it acts on\<close>

text \<open>
  The fields of \<open>DolphinMonitor\<close> that the code reads and writes. \<open>process\<close> is the
  handle of the running \<open>dbus-monitor\<close> subprocess (the number of its \<open>Popen\<close> call).
\<close>

record dolphin_monitor =
  debug :: bool
  app_name :: string
  process :: "nat option"
  state :: string
  last_directory :: "string option"

datatype log_entry =
    PlayingSoundEffect
  | TransitionedTo string app_call
  | PlayingSoundDueTo app_call
  | TransitionedBack string
  | InstanceChange
  | ProcessedEvent app_call
  | ErrorRestarting exn
  | InterruptShutdown

text \<open>
  What a blocking \<open>readline\<close> on the subprocess can deliver: a line, or a termination
  signal, whose handler \<open>handle_signal\<close> raises \<open>SystemExit\<close>.
\<close>

datatype out_item = Line string | Signal

text \<open>
  The effects of the program, as state. \<open>clock\<close> counts the milliseconds spent in awaited
  sleeps; \<open>pending_sleeps\<close> holds the durations of the coroutine objects that
  \<open>asyncio.sleep\<close> returned and nobody awaited; \<open>plays\<close> counts the sound threads started.
\<close>

record world =
  clock :: nat
  log :: "log_entry list"
  plays :: nat
  pending_sleeps :: "nat list"
  spawned :: nat
  terminated :: "nat list"
  polled :: nat
  stdout :: "out_item list"
  mixer_inits :: nat
  mixer_quits :: nat

text \<open>
  The collaborators outside the program: what the k-th subprocess writes, the process
  table at the k-th query (identifier and name), and the file system's directory test.
\<close>

record env =
  proc_output :: "nat \<Rightarrow> out_item list"
  proc_table :: "nat \<Rightarrow> (nat \<times> string) list"
  isdir :: "string \<Rightarrow> bool"

definition init_monitor :: "bool \<Rightarrow> string \<Rightarrow> world \<Rightarrow> dolphin_monitor \<times> world" where
  "init_monitor dbg name w =
     (\<lparr>debug = dbg, app_name = name, process = None,
       state = ''InitialState'', last_directory = None\<rparr>,
      w\<lparr>mixer_inits := mixer_inits w + 1\<rparr>)"

definition stop :: "dolphin_monitor \<times> world \<Rightarrow> dolphin_monitor \<times> world" where
  "stop mw =
     (case mw of (m, w) \<Rightarrow>
        (case process m of
           Some h \<Rightarrow> (m\<lparr>process := None\<rparr>,
                      w\<lparr>terminated := terminated w @ [h], mixer_quits := mixer_quits w + 1\<rparr>)
         | None \<Rightarrow> (m, w\<lparr>mixer_quits := mixer_quits w + 1\<rparr>)))"

definition get_app_pids :: "env \<Rightarrow> dolphin_monitor \<Rightarrow> world \<Rightarrow> nat set \<times> world" where
  "get_app_pids E m w =
     (set (map fst (filter (\<lambda>pn. str_in (app_name m) (snd pn)) (proc_table E (polled w)))),
      w\<lparr>polled := polled w + 1\<rparr>)"

definition debug_log :: "dolphin_monitor \<Rightarrow> log_entry \<Rightarrow> world \<Rightarrow> world" where
  "debug_log m e w = (if debug m then w\<lparr>log := log w @ [e]\<rparr> else w)"

definition sleep_ms :: "nat \<Rightarrow> world \<Rightarrow> world" where
  "sleep_ms d w = w\<lparr>clock := clock w + d\<rparr>"

definition play_sound :: "dolphin_monitor \<Rightarrow> world \<Rightarrow> world" where
  "play_sound m w = (debug_log m PlayingSoundEffect w)\<lparr>plays := plays w + 1\<rparr>"

section \<open>The navigation state machine\<close>

text \<open>Python's truth value of \<open>event['application']\<close>: \<open>None\<close> and the empty string are false.\<close>

definition truthy :: "string option \<Rightarrow> bool" where
  "truthy v = (case v of None \<Rightarrow> False | Some s \<Rightarrow> s \<noteq> [])"

text \<open>The guard of the early \<open>return\<close> at the head of \<open>handle_app_event\<close>.\<close>

definition filtered_out :: "dolphin_monitor \<Rightarrow> app_call \<Rightarrow> bool" where
  "filtered_out m event =
     (\<not> truthy (application event) \<or> application event \<noteq> Some (app_name m))"

definition handle_app_event :: "app_call \<Rightarrow> dolphin_monitor \<times> world \<Rightarrow> dolphin_monitor \<times> world" where
  "handle_app_event event mw =
     (case mw of (m, w) \<Rightarrow>
        if filtered_out m event then (m, w)
        else if state m = ''InitialState'' \<and> file_uint event = Some 3
                \<and> file_path event \<noteq> last_directory m then
          (let m1 = m\<lparr>last_directory := file_path event\<rparr>;
               w1 = play_sound m1 w;
               m2 = m1\<lparr>state := ''SoundPlayedState''\<rparr>
           in (m2, debug_log m2 (TransitionedTo (state m2) event) w1))
        else if state m = ''WaitingForNewDirState''
                \<and> (file_uint event = Some 1 \<or> file_uint event = Some 3)
                \<and> last_directory m \<noteq> file_path event then
          (let m1 = m\<lparr>last_directory := file_path event\<rparr>;
               w1 = debug_log m1 (PlayingSoundDueTo event) w;
               w2 = play_sound m1 w1;
               m2 = m1\<lparr>state := ''SoundPlayedState''\<rparr>
           in (m2, debug_log m2 (TransitionedTo (state m2) event) w2))
        else if state m = ''SoundPlayedState'' then
          (let m1 = m\<lparr>state := ''InitialState''\<rparr>
           in (m1, debug_log m1 (TransitionedBack (state m1)) w))
        else (m, w))"

text \<open>Feeding a sequence of events to the state machine, in order.\<close>

fun handle_all :: "app_call list \<Rightarrow> dolphin_monitor \<times> world \<Rightarrow> dolphin_monitor \<times> world" where
  "handle_all [] mw = mw"
| "handle_all (event # events) mw = handle_all events (handle_app_event event mw)"

section \<open>The process watchdog and the stream supervisor\<close>

text \<open>The churn test of \<open>monitor\<close>: \<open>if closed_pids or new_pids\<close>.\<close>

definition has_churn :: "nat set \<Rightarrow> nat set \<Rightarrow> bool" where
  "has_churn known_app_pids current_app_pids =
     (let new_pids = current_app_pids - known_app_pids;
          closed_pids = known_app_pids - current_app_pids
      in closed_pids \<noteq> {} \<or> new_pids \<noteq> {})"

text \<open>\<open>self.process.stdout.readline()\<close>; at end of file it returns the empty string.\<close>

definition readline :: "world \<Rightarrow> (exn + string) \<times> world" where
  "readline w =
     (case stdout w of
        [] \<Rightarrow> (Inr [], w)
      | Line s # rest \<Rightarrow> (Inr s, w\<lparr>stdout := rest\<rparr>)
      | Signal # rest \<Rightarrow> (Inl SystemExit, w\<lparr>stdout := rest\<rparr>))"

text \<open>
  The inner \<open>while True\<close>: lines are appended to \<open>call_data\<close> until one contains
  \<open>method call\<close>, which is returned beside the block. The first argument bounds the
  number of reads; \<open>None\<close> is a loop that has not ended within it.
\<close>

fun read_block :: "nat \<Rightarrow> string list \<Rightarrow> world \<Rightarrow> ((exn + string list \<times> string) \<times> world) option" where
  "read_block 0 call_data w = None"
| "read_block (Suc n) call_data w =
     (case readline w of
        (Inl e, w') \<Rightarrow> Some (Inl e, w')
      | (Inr sub_line, w') \<Rightarrow>
          if str_in ''method call'' sub_line then Some (Inr (call_data, sub_line), w')
          else read_block n (call_data @ [sub_line]) w')"

text \<open>The churn branch up to the recursive call (lines 177 to 184).\<close>

definition churn_restart :: "dolphin_monitor \<times> world \<Rightarrow> dolphin_monitor \<times> world" where
  "churn_restart mw =
     (case mw of (m, w) \<Rightarrow>
        (let w1 = sleep_ms 500 (debug_log m InstanceChange w)
         in case process m of
              Some h \<Rightarrow> (m\<lparr>process := None\<rparr>, sleep_ms 100 (w1\<lparr>terminated := terminated w1 @ [h]\<rparr>))
            | None \<Rightarrow> (m, w1)))"

text \<open>The entry of \<open>monitor\<close> up to its loop: spawn the subprocess, take the baseline.\<close>

definition monitor_enter :: "env \<Rightarrow> dolphin_monitor \<times> world \<Rightarrow> nat set \<times> dolphin_monitor \<times> world" where
  "monitor_enter E mw =
     (case mw of (m, w) \<Rightarrow>
        (let m1 = m\<lparr>process := Some (spawned w)\<rparr>;
             w1 = w\<lparr>spawned := spawned w + 1, stdout := proc_output E (spawned w)\<rparr>;
             (known_app_pids, w2) = get_app_pids E m1 w1
         in (known_app_pids, m1, w2)))"

text \<open>
  \<open>monitor\<close> and its outer \<open>while True\<close>. The loop never returns normally: the result is
  the exception that left it, with the state at that moment, or \<open>None\<close> when it is still
  running after the given number of iterations and restarts.
\<close>

fun monitor :: "env \<Rightarrow> nat \<Rightarrow> dolphin_monitor \<times> world \<Rightarrow> (exn \<times> dolphin_monitor \<times> world) option"
  and monitor_loop :: "env \<Rightarrow> nat \<Rightarrow> nat set \<Rightarrow> string \<Rightarrow> dolphin_monitor \<times> world
                        \<Rightarrow> (exn \<times> dolphin_monitor \<times> world) option" where
  "monitor E 0 mw = None"
| "monitor E (Suc n) mw =
     (case monitor_enter E mw of
        (known_app_pids, m, w) \<Rightarrow> monitor_loop E n known_app_pids [] (m, w))"
| "monitor_loop E 0 known_app_pids cached_method_call mw = None"
| "monitor_loop E (Suc n) known_app_pids cached_method_call mw =
     (case mw of (m, w) \<Rightarrow>
       (case (if cached_method_call \<noteq> [] then (Inr cached_method_call, w) else readline w) of
          (Inl e, w1) \<Rightarrow> Some (e, m, w1)
        | (Inr line, w1) \<Rightarrow>
            (case get_app_pids E m w1 of
               (current_app_pids, w2) \<Rightarrow>
                 if has_churn known_app_pids current_app_pids then
                   monitor E n (churn_restart (m, w2))
                 else if str_in ''method call'' line then
                   (case read_block n [line] w2 of
                      None \<Rightarrow> None
                    | Some (Inl e, w3) \<Rightarrow> Some (e, m, w3)
                    | Some (Inr (call_data, sub_line), w3) \<Rightarrow>
                        (let w4 = sleep_ms 30 w3
                         in case extract_app_event (isdir E) (app_name m) call_data of
                              Inl e \<Rightarrow> Some (e, m, w4)
                            | Inr event \<Rightarrow>
                                monitor_loop E n known_app_pids sub_line
                                  (handle_app_event event (m, debug_log m (ProcessedEvent event) w4))))
                 else monitor_loop E n known_app_pids [] (m, w2))))"

section \<open>The top-level driver\<close>

definition is_Exception :: "exn \<Rightarrow> bool" where
  "is_Exception e = (e \<noteq> SystemExit \<and> e \<noteq> KeyboardInterrupt)"

text \<open>
  \<open>main\<close>, with the command-line values as parameters. In the handler,
  \<open>asyncio.sleep(5)\<close> is called without \<open>await\<close> from a plain function: the call returns a
  coroutine object and nothing runs it, so it is recorded in \<open>pending_sleeps\<close> and the
  clock stays. The result is the exception that leaves \<open>main\<close>, if any, or \<open>None\<close> when
  \<open>main\<close> has not returned within the bound.
\<close>

fun main :: "env \<Rightarrow> bool \<Rightarrow> string \<Rightarrow> nat \<Rightarrow> world \<Rightarrow> (exn option \<times> world) option" where
  "main E dbg name 0 w = None"
| "main E dbg name (Suc n) w =
     (case monitor E n (init_monitor dbg name w) of
        None \<Rightarrow> None
      | Some (e, m1, w1) \<Rightarrow>
          if is_Exception e then
            (let w2 = w1\<lparr>log := log w1 @ [ErrorRestarting e]\<rparr>;
                 w3 = w2\<lparr>pending_sleeps := pending_sleeps w2 @ [5000]\<rparr>
             in case main E dbg name n w3 of
                  None \<Rightarrow> None
                | Some (r, w4) \<Rightarrow> Some (r, snd (stop (m1, w4))))
          else if e = KeyboardInterrupt then
            Some (None, snd (stop (m1, debug_log m1 InterruptShutdown w1)))
          else Some (Some e, snd (stop (m1, w1))))"

section \<open>Concrete blocks, events and environments\<close>

definition w0 :: world where
  "w0 = \<lparr>clock = 0, log = [], plays = 0, pending_sleeps = [], spawned = 0, terminated = [],
          polled = 0, stdout = [], mixer_inits = 0, mixer_quits = 0\<rparr>"

definition ev_pictures :: app_call where
  "ev_pictures = \<lparr>application = Some ''dolphin'', app_uint = Some 7,
                   file_path = Some ''/home/u/Pictures'', file_uint = Some 3\<rparr>"

definition ev_other :: app_call where
  "ev_other = \<lparr>application = Some ''dolphin'', app_uint = None,
                file_path = Some ''/tmp'', file_uint = Some 1\<rparr>"

definition line_call :: string where
  "line_call = ''method call time=1 sender=:1.2 member=RegisterResourceEvent'' @ [nl]"

definition line_string :: "string \<Rightarrow> string" where
  "line_string s = ''   string '' @ [dq] @ s @ [dq, nl]"

definition line_uint32 :: "string \<Rightarrow> string" where
  "line_uint32 ds = ''   uint32 '' @ ds @ [nl]"

definition block_pictures :: "string list" where
  "block_pictures = [line_call, line_string ''dolphin'', line_uint32 ''7'',
                     line_string ''file:///home/u/Pictures'', line_uint32 ''3'']"

definition block_trash_no_uint :: "string list" where
  "block_trash_no_uint = [line_call, line_string ''trash:/foo'', line_string ''x'']"

definition block_app_last :: "string list" where
  "block_app_last = [line_call, line_string ''dolphin'']"

definition block_path_last :: "string list" where
  "block_path_last = [line_call, line_string ''file:///home/u'']"

definition block_repeated_path :: "string list" where
  "block_repeated_path = [line_string ''file:///a'', line_string ''x'',
                          line_string ''file:///a'', line_uint32 ''3'']"

definition block_trash :: "string list" where
  "block_trash = [line_call, line_string ''dolphin'', line_uint32 ''7'',
                  line_string ''trash:/foo'', line_uint32 ''3'']"

definition block_empty_name :: "string list" where
  "block_empty_name = [line_call, line_string [], line_uint32 ''7'',
                       line_string ''file:///a'', line_uint32 ''3'']"


text \<open>
  An environment with a failing block: the first subprocess writes a block on which the
  parser raises; the subprocess of the restarted monitor is met by a termination signal.
\<close>

definition env_fatal :: env where
  "env_fatal =
     \<lparr>proc_output = (\<lambda>k. if k = 0 then map Line (block_app_last @ [line_call]) else [Signal]),
      proc_table = (\<lambda>k. [(10, ''dolphin'')]),
      isdir = (\<lambda>p. False)\<rparr>"

definition m0 :: dolphin_monitor where
  "m0 = fst (init_monitor False ''dolphin'' w0)"

text \<open>Two file systems: one with no directory at all, one where every path is a directory.\<close>

definition fs_empty :: "string \<Rightarrow> bool" where
  "fs_empty p = False"

definition fs_all :: "string \<Rightarrow> bool" where
  "fs_all p = True"

text \<open>
  A line on which the loop body assigns \<open>file_path\<close>: not an application line, a
  \<open>string\<close> line, and either a \<open>file://\<close> match or a \<open>trash:/\<close> match whose body is
  not blank.
\<close>

definition sets_path :: "string \<Rightarrow> string \<Rightarrow> bool" where
  "sets_path name l =
     (\<not> str_in (''string '' @ [dq] @ name @ [dq]) l \<and> str_in ''string'' l \<and>
      (case re_body ''file://'' l of
         Some g \<Rightarrow> True
       | None \<Rightarrow> (case re_body ''trash:/'' l of None \<Rightarrow> False | Some g \<Rightarrow> strip g \<noteq> [])))"

definition ev_trash :: app_call where
  "ev_trash = \<lparr>application = Some ''dolphin'', app_uint = Some 7,
                file_path = Some ''trash:'', file_uint = Some 3\<rparr>"

definition ev_empty_name :: app_call where
  "ev_empty_name = \<lparr>application = Some [], app_uint = Some 7,
                     file_path = Some ''/a'', file_uint = Some 3\<rparr>"

definition ev_repeated_path :: app_call where
  "ev_repeated_path = \<lparr>application = None, app_uint = None,
                        file_path = Some ''/a'', file_uint = None\<rparr>"





text \<open>States of the run in \<open>env_fatal\<close>: when the parser raises, and when \<open>main\<close> is left.\<close>

definition m_fatal :: dolphin_monitor where
  "m_fatal = \<lparr>debug = False, app_name = ''dolphin'', process = Some 0,
               state = ''InitialState'', last_directory = None\<rparr>"

definition w_fatal :: world where
  "w_fatal = \<lparr>clock = 30, log = [], plays = 0, pending_sleeps = [], spawned = 1,
              terminated = [], polled = 2, stdout = [], mixer_inits = 1, mixer_quits = 0\<rparr>"

definition w_end :: world where
  "w_end = \<lparr>clock = 30, log = [ErrorRestarting IndexError], plays = 0,
            pending_sleeps = [5000], spawned = 2, terminated = [1, 0], polled = 3,
            stdout = [], mixer_inits = 2, mixer_quits = 2\<rparr>"

text \<open>A monitor configured with the empty application name (\<open>--app-name ""\<close>).\<close>

definition m_noname :: dolphin_monitor where
  "m_noname = fst (init_monitor False [] w0)"

section \<open>Properties of the navigation state machine\<close>

lemma handle_app_event_state_cases:
  "state (fst mw) \<in> {''InitialState'', ''SoundPlayedState''}
   \<Longrightarrow> state (fst (handle_app_event event mw)) \<in> {''InitialState'', ''SoundPlayedState''}"
  by (cases mw) (auto simp add: handle_app_event_def Let_def)

lemma handle_all_state_cases:
  "state (fst mw) \<in> {''InitialState'', ''SoundPlayedState''}
   \<Longrightarrow> state (fst (handle_all events mw)) \<in> {''InitialState'', ''SoundPlayedState''}"
proof (induction events arbitrary: mw)
  case Nil
  then show ?case by simp
next
  case (Cons e es)
  from Cons.prems
  have "state (fst (handle_app_event e mw)) \<in> {''InitialState'', ''SoundPlayedState''}"
    by (rule handle_app_event_state_cases)
  then show ?case using Cons.IH by simp
qed

text \<open>
  C9. Whatever events are handled, in whatever number, by a monitor as its constructor
  leaves it, the state is \<open>InitialState\<close> or \<open>SoundPlayedState\<close> afterwards and never
  \<open>WaitingForNewDirState\<close>: no branch of \<open>handle_app_event\<close> assigns that state.
\<close>

theorem waiting_state_unreachable:
  "state (fst (handle_all events (init_monitor dbg name w))) \<in> {''InitialState'', ''SoundPlayedState''}
   \<and> state (fst (handle_all events (init_monitor dbg name w))) \<noteq> ''WaitingForNewDirState''"
proof -
  have "state (fst (init_monitor dbg name w)) \<in> {''InitialState'', ''SoundPlayedState''}"
    by (simp add: init_monitor_def)
  then have "state (fst (handle_all events (init_monitor dbg name w)))
      \<in> {''InitialState'', ''SoundPlayedState''}"
    by (rule handle_all_state_cases)
  then show ?thesis by auto
qed

theorem waiting_state_unreachable_witness:
  "state (fst (handle_all [ev_pictures, ev_other, ev_pictures] (init_monitor True ''dolphin'' w0)))
     \<noteq> ''WaitingForNewDirState''"
  using waiting_state_unreachable [of "[ev_pictures, ev_other, ev_pictures]" True "''dolphin''" w0]
  by blast

text \<open>
  C5, as amended. With a configured application name that is not empty: from
  \<open>InitialState\<close>, an event whose application is the configured name, with
  \<open>file_uint = 3\<close> and a path other than \<open>last_directory\<close>, starts one sound, moves to
  \<open>SoundPlayedState\<close> and stores its path; the next event whose application is the
  configured name, whatever its path and sequence code, starts no sound and moves back
  to \<open>InitialState\<close>.
\<close>

theorem state_machine_cycle:
  assumes "state m = ''InitialState''"
    and "app_name m \<noteq> []"
    and "application ev = Some (app_name m)"
    and "file_uint ev = Some 3" and "file_path ev \<noteq> last_directory m"
    and "application ev2 = Some (app_name m)"
  shows "plays (snd (handle_app_event ev (m, w))) = plays w + 1
       \<and> state (fst (handle_app_event ev (m, w))) = ''SoundPlayedState''
       \<and> last_directory (fst (handle_app_event ev (m, w))) = file_path ev
       \<and> plays (snd (handle_app_event ev2 (handle_app_event ev (m, w))))
           = plays (snd (handle_app_event ev (m, w)))
       \<and> state (fst (handle_app_event ev2 (handle_app_event ev (m, w)))) = ''InitialState''"
  using assms
  by (simp add: handle_app_event_def filtered_out_def truthy_def Let_def play_sound_def
      debug_log_def)

theorem state_machine_cycle_witness:
  "state m0 = ''InitialState''
   \<and> app_name m0 \<noteq> []
   \<and> application ev_pictures = Some (app_name m0)
   \<and> file_uint ev_pictures = Some 3 \<and> file_path ev_pictures \<noteq> last_directory m0
   \<and> application ev_other = Some (app_name m0)
   \<and> plays (snd (handle_app_event ev_pictures (m0, w0))) = 1
   \<and> state (fst (handle_app_event ev_pictures (m0, w0))) = ''SoundPlayedState''
   \<and> last_directory (fst (handle_app_event ev_pictures (m0, w0))) = Some ''/home/u/Pictures''
   \<and> plays (snd (handle_app_event ev_other (handle_app_event ev_pictures (m0, w0)))) = 1
   \<and> state (fst (handle_app_event ev_other (handle_app_event ev_pictures (m0, w0))))
       = ''InitialState''"
  using state_machine_cycle [of m0 ev_pictures ev_other w0]
  by (simp add: m0_def init_monitor_def ev_pictures_def ev_other_def w0_def)

text \<open>
  C5 as stated fails for the empty application name: the event carries the configured
  name, \<open>file_uint = 3\<close> and a path other than \<open>last_directory\<close>, and the monitor is in
  \<open>InitialState\<close>; yet the guard at the head of \<open>handle_app_event\<close> returns, because
  the empty string is false: no sound starts, the state stays, no path is stored.
\<close>

theorem state_machine_cycle_counterexample:
  "state m_noname = ''InitialState''
   \<and> application ev_empty_name = Some (app_name m_noname)
   \<and> file_uint ev_empty_name = Some 3
   \<and> file_path ev_empty_name \<noteq> last_directory m_noname
   \<and> plays (snd (handle_app_event ev_empty_name (m_noname, w0))) = plays w0
   \<and> state (fst (handle_app_event ev_empty_name (m_noname, w0))) = ''InitialState''
   \<and> last_directory (fst (handle_app_event ev_empty_name (m_noname, w0))) = None"
  by (simp add: m_noname_def init_monitor_def ev_empty_name_def w0_def handle_app_event_def
      filtered_out_def truthy_def)

text \<open>
  C6, as amended. With a configured application name that is not empty: from
  \<open>InitialState\<close>, two identical events in a row whose application is the configured
  name, with \<open>file_uint = 3\<close> and a path other than \<open>last_directory\<close>, start exactly one
  sound, and the first of them starts it.
\<close>

theorem two_identical_events_one_sound:
  assumes "state m = ''InitialState''"
    and "app_name m \<noteq> []"
    and "application ev = Some (app_name m)"
    and "file_uint ev = Some 3" and "file_path ev \<noteq> last_directory m"
  shows "plays (snd (handle_app_event ev (m, w))) = plays w + 1
       \<and> plays (snd (handle_all [ev, ev] (m, w))) = plays w + 1"
  using assms
  by (simp add: handle_app_event_def filtered_out_def truthy_def Let_def play_sound_def
      debug_log_def)

theorem two_identical_events_one_sound_witness:
  "state m0 = ''InitialState''
   \<and> app_name m0 \<noteq> []
   \<and> application ev_pictures = Some (app_name m0)
   \<and> file_uint ev_pictures = Some 3 \<and> file_path ev_pictures \<noteq> last_directory m0
   \<and> plays (snd (handle_app_event ev_pictures (m0, w0))) = 1
   \<and> plays (snd (handle_all [ev_pictures, ev_pictures] (m0, w0))) = 1"
  using two_identical_events_one_sound [of m0 ev_pictures w0]
  by (simp add: m0_def init_monitor_def ev_pictures_def w0_def)

text \<open>
  C6 as stated fails for the empty application name: two identical events with the
  configured name, \<open>file_uint = 3\<close> and a new path start no sound at all, neither the
  first nor the second.
\<close>

theorem two_identical_events_counterexample:
  "state m_noname = ''InitialState''
   \<and> application ev_empty_name = Some (app_name m_noname)
   \<and> file_uint ev_empty_name = Some 3
   \<and> file_path ev_empty_name \<noteq> last_directory m_noname
   \<and> plays w0 = 0
   \<and> plays (snd (handle_app_event ev_empty_name (m_noname, w0))) = 0
   \<and> plays (snd (handle_all [ev_empty_name, ev_empty_name] (m_noname, w0))) = 0"
  by (simp add: m_noname_def init_monitor_def ev_empty_name_def w0_def handle_app_event_def
      filtered_out_def truthy_def)

section \<open>Properties of the watchdog\<close>

text \<open>
  C7. The churn test is true exactly when the symmetric difference of the previous and
  the current set of process identifiers is not empty; it is true for \<open>{1,2}\<close> against
  \<open>{1,3}\<close> and false for \<open>{1,2}\<close> against \<open>{1,2}\<close>.
\<close>

theorem has_churn_iff:
  "has_churn previous current = ((previous - current) \<union> (current - previous) \<noteq> {})
   \<and> has_churn {1, 2} {1, 3} \<and> \<not> has_churn {1, 2} {1, 2}"
  by (auto simp add: has_churn_def Let_def)

theorem has_churn_iff_witness:
  "has_churn {1, 2} {2} \<and> \<not> has_churn {} {}"
  using has_churn_iff [of "{1, 2}" "{2}"] has_churn_iff [of "{}" "{}"]
  by auto

section \<open>Properties of the event parser\<close>

lemmas eval_defs = line_call_def line_string_def line_uint32_def
  extract_app_event_def extract_line_def next_line_def list_index_def empty_call_def
  normalize_path_def strip_def is_space_def is_digit_def int_of_digits_def digit_val_def
  upto_last_dq_def dirname_def fs_empty_def fs_all_def

text \<open>
  C1. The parser is not total. On a block whose \<open>trash:/\<close> line is followed by a line
  without \<open>uint32\<close> argument it raises \<open>AttributeError\<close> (line 105 calls \<open>.group\<close> on
  the failed match, where the \<open>file://\<close> branch tests the match first); on a block
  that ends with the application line, or with a path line, it raises \<open>IndexError\<close>.
\<close>

theorem parser_raises:
  "extract_app_event dir ''dolphin'' block_trash_no_uint = Inl AttributeError
   \<and> extract_app_event dir ''dolphin'' block_app_last = Inl IndexError
   \<and> extract_app_event dir ''dolphin'' block_path_last = Inl IndexError"
  by (simp add: block_trash_no_uint_def block_app_last_def block_path_last_def eval_defs)

theorem parser_raises_witness:
  "extract_app_event fs_empty ''dolphin'' block_trash_no_uint = Inl AttributeError"
  using parser_raises [of fs_empty] by blast

text \<open>
  C4. On a block where the matched path line also stands earlier in the block,
  \<open>lines.index\<close> finds the earlier copy: the integer is looked for after that copy. Here
  the third line repeats the first, the fourth line carries \<open>uint32 3\<close>, and the
  returned \<open>file_uint\<close> is \<open>None\<close>.
\<close>

theorem repeated_path_line_reads_after_first_copy:
  "extract_app_event dir ''dolphin'' block_repeated_path
     = Inr (ev_repeated_path\<lparr>file_path := Some (if dir ''/a'' then ''/a'' else ''/'')\<rparr>)
   \<and> file_uint ev_repeated_path = None
   \<and> block_repeated_path ! 2 = block_repeated_path ! 0
   \<and> re_uint32 (block_repeated_path ! 3) = Some ''3''"
  by (simp add: block_repeated_path_def ev_repeated_path_def eval_defs)

theorem repeated_path_line_reads_after_first_copy_witness:
  "extract_app_event fs_all ''dolphin'' block_repeated_path = Inr ev_repeated_path"
  using repeated_path_line_reads_after_first_copy [of fs_all]
  by (simp add: fs_all_def ev_repeated_path_def)

lemma extract_line_application:
  assumes "extract_line name lines l ac = Inr ac'"
    and "application ac = None \<or> application ac = Some name"
  shows "application ac' = None \<or> application ac' = Some name"
  using assms
  by (auto simp add: extract_line_def Let_def split: if_splits sum.splits option.splits)

lemma extract_loop_application:
  assumes "extract_loop name lines rest ac = Inr ac'"
    and "application ac = None \<or> application ac = Some name"
  shows "application ac' = None \<or> application ac' = Some name"
  using assms
proof (induction rest arbitrary: ac)
  case Nil
  then show ?case by simp
next
  case (Cons l rest)
  from Cons.prems(1) obtain ac1 where
    step: "extract_line name lines l ac = Inr ac1" and
    rest: "extract_loop name lines rest ac1 = Inr ac'"
    by (auto split: sum.splits)
  from step Cons.prems(2) have "application ac1 = None \<or> application ac1 = Some name"
    by (rule extract_line_application)
  with rest show ?case by (rule Cons.IH)
qed

lemma normalize_path_application: "application (normalize_path dir ac) = application ac"
  by (simp add: normalize_path_def split: option.splits)

text \<open>
  C10, as amended. The \<open>application\<close> field of a returned event is \<open>None\<close> or the
  configured name, and for a configured name that is not empty the filter of
  \<open>handle_app_event\<close> rejects the event exactly when the field is \<open>None\<close>.
\<close>

theorem application_is_absent_or_configured:
  assumes "extract_app_event dir name lines = Inr ev"
  shows "(application ev = None \<or> application ev = Some name)
       \<and> (name \<noteq> [] \<longrightarrow> filtered_out (m\<lparr>app_name := name\<rparr>) ev = (application ev = None))"
proof -
  from assms obtain ac where
    loop: "extract_loop name lines lines empty_call = Inr ac" and
    ev: "ev = normalize_path dir ac"
    by (auto simp add: extract_app_event_def split: sum.splits)
  have "application empty_call = None \<or> application empty_call = Some name"
    by (simp add: empty_call_def)
  with loop have "application ac = None \<or> application ac = Some name"
    by (rule extract_loop_application)
  then have app: "application ev = None \<or> application ev = Some name"
    by (simp add: ev normalize_path_application)
  then show ?thesis
    by (auto simp add: filtered_out_def truthy_def)
qed

theorem application_is_absent_or_configured_witness:
  "extract_app_event fs_all ''dolphin'' block_pictures = Inr ev_pictures
   \<and> application ev_pictures = Some ''dolphin''
   \<and> \<not> filtered_out m0 ev_pictures"
proof -
  have h: "extract_app_event fs_all ''dolphin'' block_pictures = Inr ev_pictures"
    by (simp add: block_pictures_def ev_pictures_def eval_defs)
  have m: "m0\<lparr>app_name := ''dolphin''\<rparr> = m0"
    by (simp add: m0_def init_monitor_def)
  from application_is_absent_or_configured [OF h, of m0]
  have "filtered_out m0 ev_pictures = (application ev_pictures = None)"
    by (simp add: m)
  moreover have "application ev_pictures = Some ''dolphin''"
    by (simp add: ev_pictures_def)
  ultimately show ?thesis using h by simp
qed

text \<open>
  C10 as stated fails for the empty application name: the parsed event carries the
  configured name, so a presence check accepts it, and the filter rejects it, because
  the empty string is false in \<open>not event['application']\<close>.
\<close>

theorem application_filter_counterexample:
  "extract_app_event fs_all [] block_empty_name = Inr ev_empty_name
   \<and> application ev_empty_name \<noteq> None
   \<and> application ev_empty_name = Some (app_name (m0\<lparr>app_name := []\<rparr>))
   \<and> filtered_out (m0\<lparr>app_name := []\<rparr>) ev_empty_name
   \<and> handle_app_event ev_empty_name (m0\<lparr>app_name := []\<rparr>, w0) = (m0\<lparr>app_name := []\<rparr>, w0)"
  by (simp add: block_empty_name_def ev_empty_name_def eval_defs filtered_out_def truthy_def
      handle_app_event_def)

lemma extract_loop_append:
  "extract_loop name lines (xs @ ys) ac =
     (case extract_loop name lines xs ac of
        Inl e \<Rightarrow> Inl e
      | Inr ac' \<Rightarrow> extract_loop name lines ys ac')"
  by (induction xs arbitrary: ac) (auto split: sum.splits)

lemma extract_line_no_path:
  assumes "\<not> sets_path name l" and "extract_line name lines l ac = Inr ac'"
  shows "file_path ac' = file_path ac"
  using assms
  by (auto simp add: extract_line_def sets_path_def Let_def
      split: if_splits sum.splits option.splits)

lemma extract_loop_no_path:
  assumes "\<forall>l \<in> set ys. \<not> sets_path name l" and "extract_loop name lines ys ac = Inr ac'"
  shows "file_path ac' = file_path ac"
  using assms
proof (induction ys arbitrary: ac)
  case Nil
  then show ?case by simp
next
  case (Cons l ys)
  from Cons.prems(2) obtain ac1 where
    step: "extract_line name lines l ac = Inr ac1" and
    rest: "extract_loop name lines ys ac1 = Inr ac'"
    by (auto split: sum.splits)
  from Cons.prems(1) have "\<not> sets_path name l" by simp
  from this step have "file_path ac1 = file_path ac" by (rule extract_line_no_path)
  moreover from Cons.prems(1) rest have "file_path ac' = file_path ac1"
    by (intro Cons.IH) auto
  ultimately show ?case by simp
qed

lemma extract_line_trash:
  assumes "\<not> str_in (''string '' @ [dq] @ name @ [dq]) l" and "str_in ''string'' l"
    and "re_body ''file://'' l = None" and "re_body ''trash:/'' l = Some g"
    and "strip g \<noteq> []"
    and "extract_line name lines l ac = Inr ac'"
  shows "file_path ac' = Some (''trash://'' @ strip g)"
  using assms
  by (auto simp add: extract_line_def Let_def split: if_splits sum.splits option.splits)

text \<open>
  C3, as amended. When the last line of a block that assigns a path is a \<open>trash:/\<close>
  match with body \<open>g\<close>, not blank, and the parser returns, the returned path is
  \<open>trash://\<close> followed by the trimmed body if the file system reports that string as a
  directory, and the \<open>dirname\<close> of that string otherwise.
\<close>

theorem trash_path_normalised:
  assumes "lines = pre @ l # post"
    and "\<not> str_in (''string '' @ [dq] @ name @ [dq]) l" and "str_in ''string'' l"
    and "re_body ''file://'' l = None" and "re_body ''trash:/'' l = Some g"
    and "strip g \<noteq> []"
    and "\<forall>l' \<in> set post. \<not> sets_path name l'"
    and "extract_app_event dir name lines = Inr ev"
  shows "file_path ev = Some (if dir (''trash://'' @ strip g) then ''trash://'' @ strip g
                              else dirname (''trash://'' @ strip g))"
proof -
  from assms(8) obtain ac where
    loop: "extract_loop name lines lines empty_call = Inr ac" and
    ev: "ev = normalize_path dir ac"
    by (auto simp add: extract_app_event_def split: sum.splits)
  from loop have "extract_loop name lines (pre @ [l] @ post) empty_call = Inr ac"
    by (simp add: assms(1))
  then obtain ac1 ac2 where
    "extract_loop name lines pre empty_call = Inr ac1" and
    step: "extract_line name lines l ac1 = Inr ac2" and
    rest: "extract_loop name lines post ac2 = Inr ac"
    by (auto simp add: extract_loop_append split: sum.splits)
  from assms(2-6) step have "file_path ac2 = Some (''trash://'' @ strip g)"
    by (rule extract_line_trash)
  moreover from assms(7) rest have "file_path ac = file_path ac2"
    by (rule extract_loop_no_path)
  ultimately have "file_path ac = Some (''trash://'' @ strip g)" by simp
  then show ?thesis by (simp add: ev normalize_path_def)
qed

theorem trash_path_normalised_witness:
  "file_path ev_trash = Some (dirname ''trash://foo'') \<and> dirname ''trash://foo'' = ''trash:''"
proof -
  have h1: "block_trash = [line_call, line_string ''dolphin'', line_uint32 ''7'']
              @ line_string ''trash:/foo'' # [line_uint32 ''3'']"
    by (simp add: block_trash_def)
  have h2: "\<not> str_in (''string '' @ [dq] @ ''dolphin'' @ [dq]) (line_string ''trash:/foo'')"
    by (simp add: line_string_def)
  have h3: "str_in ''string'' (line_string ''trash:/foo'')"
    by (simp add: line_string_def)
  have h4: "re_body ''file://'' (line_string ''trash:/foo'') = None"
    by (simp add: line_string_def)
  have h5: "re_body ''trash:/'' (line_string ''trash:/foo'') = Some ''foo''"
    by (simp add: line_string_def upto_last_dq_def)
  have h6: "strip ''foo'' \<noteq> []"
    by (simp add: strip_def is_space_def)
  have h7: "\<forall>l' \<in> set [line_uint32 ''3'']. \<not> sets_path ''dolphin'' l'"
    by (simp add: sets_path_def line_uint32_def)
  have h8: "extract_app_event fs_empty ''dolphin'' block_trash = Inr ev_trash"
    by (simp add: block_trash_def ev_trash_def eval_defs)
  have s: "strip ''foo'' = ''foo''"
    by (simp add: strip_def is_space_def)
  from trash_path_normalised [OF h1 h2 h3 h4 h5 h6 h7 h8]
  have "file_path ev_trash = Some (dirname ''trash://foo'')"
    by (simp add: s fs_empty_def)
  moreover have "dirname ''trash://foo'' = ''trash:''"
    by (simp add: dirname_def)
  ultimately show ?thesis by simp
qed

text \<open>
  C3 as stated fails: for the trash path \<open>trash:/foo\<close>, on a file system where
  \<open>trash://foo\<close> is no directory, the returned path is \<open>trash:\<close>, which neither is the
  trimmed body behind \<open>trash://\<close> nor starts with \<open>trash://\<close>.
\<close>

theorem trash_prefix_lost_counterexample:
  "extract_app_event fs_empty ''dolphin'' block_trash = Inr ev_trash
   \<and> file_path ev_trash = Some ''trash:''
   \<and> \<not> prefix ''trash://'' ''trash:''"
  by (simp add: block_trash_def ev_trash_def eval_defs)

section \<open>Properties of the supervisor and of the driver\<close>




text \<open>
  C8. When an \<open>Exception\<close> leaves the monitor, \<open>main\<close> logs it and calls itself at
  once: the world handed to the restarted \<open>main\<close> has the clock of the moment of the
  exception, and the five seconds stand in \<open>pending_sleeps\<close>, never slept.
\<close>

theorem main_restarts_without_delay:
  assumes "monitor E n (init_monitor dbg name w) = Some (e, m1, w1)"
    and "is_Exception e"
  shows "main E dbg name (Suc n) w =
           (case main E dbg name n
                   (w1\<lparr>log := log w1 @ [ErrorRestarting e],
                       pending_sleeps := pending_sleeps w1 @ [5000]\<rparr>) of
              None \<Rightarrow> None
            | Some (r, w4) \<Rightarrow> Some (r, snd (stop (m1, w4))))
       \<and> clock (w1\<lparr>log := log w1 @ [ErrorRestarting e],
                    pending_sleeps := pending_sleeps w1 @ [5000]\<rparr>) = clock w1"
  using assms by (simp add: Let_def)

theorem main_restarts_without_delay_witness:
  "is_Exception IndexError
   \<and> monitor env_fatal 9 (init_monitor False ''dolphin'' w0) = Some (IndexError, m_fatal, w_fatal)
   \<and> main env_fatal False ''dolphin'' (Suc 9) w0 = Some (Some SystemExit, w_end)
   \<and> clock w_end = clock w_fatal \<and> pending_sleeps w_end = [5000]"
proof -
  have h1: "monitor env_fatal 9 (init_monitor False ''dolphin'' w0)
              = Some (IndexError, m_fatal, w_fatal)"
    by code_simp
  have h2: "is_Exception IndexError"
    by (simp add: is_Exception_def)
  have inner: "main env_fatal False ''dolphin'' 9
                 (w_fatal\<lparr>log := log w_fatal @ [ErrorRestarting IndexError],
                          pending_sleeps := pending_sleeps w_fatal @ [5000]\<rparr>)
               = Some (Some SystemExit, w_end\<lparr>terminated := [1], mixer_quits := 1\<rparr>)"
    by code_simp
  have st: "snd (stop (m_fatal, w_end\<lparr>terminated := [1], mixer_quits := 1\<rparr>)) = w_end"
    by (simp add: stop_def m_fatal_def w_end_def)
  from main_restarts_without_delay [OF h1 h2]
  have "main env_fatal False ''dolphin'' (Suc 9) w0 =
          (case main env_fatal False ''dolphin'' 9
                  (w_fatal\<lparr>log := log w_fatal @ [ErrorRestarting IndexError],
                           pending_sleeps := pending_sleeps w_fatal @ [5000]\<rparr>) of
             None \<Rightarrow> None
           | Some (r, w4) \<Rightarrow> Some (r, snd (stop (m_fatal, w4))))"
    by (rule conjunct1)
  also have "\<dots> = Some (Some SystemExit,
                 snd (stop (m_fatal, w_end\<lparr>terminated := [1], mixer_quits := 1\<rparr>)))"
    by (simp only: inner option.case prod.case)
  also have "\<dots> = Some (Some SystemExit, w_end)"
    by (simp only: st)
  finally have "main env_fatal False ''dolphin'' (Suc 9) w0 = Some (Some SystemExit, w_end)" .
  then show ?thesis using h1 h2 by (simp add: w_end_def w_fatal_def)
qed

end
